theory Spec2Isabelle
  imports Complex_Main
begin

section \<open>Configurations for resistive processing units\<close>

text \<open>
  A shallow embedding of \<^verbatim>\<open>aihwkit/simulator/configs/configs.py\<close>: the four
  dataclasses \<^verbatim>\<open>FloatingPointRPUConfig\<close>, \<^verbatim>\<open>SingleRPUConfig\<close>,
  \<^verbatim>\<open>UnitCellRPUConfig\<close> and \<^verbatim>\<open>InferenceRPUConfig\<close>, the constructors
  that \<^verbatim>\<open>@dataclass\<close> generates for them, attribute assignment on their
  instances, and their methods.
\<close>

subsection \<open>Python floats\<close>

text \<open>
  The device fields \<^verbatim>\<open>diffusion\<close> and \<^verbatim>\<open>lifetime\<close> are Python floats. The
  only operation the module performs on them is the comparison \<^verbatim>\<open>> 0.0\<close>, which
  involves no rounding, so a finite float is represented by the real number it denotes;
  the two infinities and NaN are kept as values of their own, and \<open>float_gt\<close> is
  Python's greater-than on them (every comparison with NaN is false).
\<close>

datatype pyfloat = Finite real | PosInf | NegInf | NaN

fun float_gt :: "pyfloat \<Rightarrow> pyfloat \<Rightarrow> bool" where
  "float_gt NaN y = False"
| "float_gt x NaN = False"
| "float_gt (Finite x) (Finite y) = (y < x)"
| "float_gt (Finite x) PosInf = False"
| "float_gt (Finite x) NegInf = True"
| "float_gt PosInf PosInf = False"
| "float_gt PosInf y = True"
| "float_gt NegInf y = False"

text \<open>
  The specification's wording for the same test, stated on the value and not through the
  comparison operator: the number is strictly greater than zero.
\<close>

definition strictly_positive :: "pyfloat \<Rightarrow> bool" where
  "strictly_positive v = (case v of Finite r \<Rightarrow> 0 < r | PosInf \<Rightarrow> True | NegInf \<Rightarrow> False | NaN \<Rightarrow> False)"

text \<open>Python's built-in \<^verbatim>\<open>any\<close> on a list of booleans.\<close>

fun any_py :: "bool list \<Rightarrow> bool" where
  "any_py [] = False"
| "any_py (x # xs) = (if x then True else any_py xs)"

subsection \<open>Errors\<close>

datatype error =
    TypeError \<comment> \<open>raised by a generated \<^verbatim>\<open>__init__\<close> for an unexpected keyword argument\<close>
  | TranslationError \<comment> \<open>the translator rejects the configuration\<close>
  | EmptyUnitCell \<comment> \<open>the translator rejects a unit cell without sub-devices\<close>

subsection \<open>The imported parameter classes\<close>

text \<open>
  Modelled from the spec: the device classes \<^verbatim>\<open>FloatingPointDevice\<close>,
  \<^verbatim>\<open>PulsedDevice\<close>, \<^verbatim>\<open>ConstantStepDevice\<close>, \<^verbatim>\<open>IdealDevice\<close> and
  \<^verbatim>\<open>UnitCellDevice\<close> are declared in \<^verbatim>\<open>aihwkit.simulator.configs.devices\<close>,
  which is not among the sources. The specification describes a device as a physical
  parameter bundle carrying a decay lifetime and a diffusion rate, and a unit cell as an
  ordered sequence of pulsed devices. The configuration module reads exactly the
  attributes \<^verbatim>\<open>diffusion\<close>, \<^verbatim>\<open>lifetime\<close> and \<^verbatim>\<open>unit_cell_devices\<close>.
\<close>

record DeviceParameters =
  diffusion :: pyfloat
  lifetime :: pyfloat

type_synonym FloatingPointDevice = DeviceParameters
type_synonym PulsedDevice = DeviceParameters
type_synonym IdealDevice = DeviceParameters

record UnitCellDevice =
  unit_cell_devices :: "PulsedDevice list"

text \<open>
  Modelled from the spec: \<^verbatim>\<open>IOParameters\<close>, \<^verbatim>\<open>UpdateParameters\<close> and the
  enumeration \<^verbatim>\<open>PulseType\<close> are declared in \<^verbatim>\<open>aihwkit.simulator.configs.utils\<close>,
  which is not among the sources. The specification gives the I/O parameters a perfection
  flag and the update parameters a pulse-generation scheme with a "no pulsing" mode; the
  configuration module names exactly the keywords \<^verbatim>\<open>is_perfect\<close> and
  \<^verbatim>\<open>pulse_type\<close> and the member \<^verbatim>\<open>PulseType.NONE\<close>. \<open>Pulsed n\<close> stands for the
  \<open>n\<close>-th pulsing member of the enumeration.
\<close>

datatype PulseType = NONE | Pulsed nat

record IOParameters =
  is_perfect :: bool

record UpdateParameters =
  pulse_type :: PulseType

text \<open>
  The default factories. Each field of the four dataclasses is declared with
  \<^verbatim>\<open>field(default_factory=C)\<close> for an imported class \<^verbatim>\<open>C\<close>; what \<^verbatim>\<open>C()\<close>
  returns is decided by declarations outside the sources, so the results are parameters
  of the constructors (each call is taken to return a value). The noise model, the drift
  compensation, the weight clip and the weight modifier are never inspected by the module:
  their types are the parameters \<open>'n\<close>, \<open>'d\<close>, \<open>'c\<close> and \<open>'m\<close>.
\<close>

record ('n, 'd, 'c, 'm) factories =
  FloatingPointDevice_new :: FloatingPointDevice
  ConstantStepDevice_new :: PulsedDevice
  UnitCellDevice_new :: UnitCellDevice
  IdealDevice_new :: IdealDevice
  IOParameters_new :: IOParameters
  UpdateParameters_new :: UpdateParameters
  PCMLikeNoiseModel_new :: 'n
  GlobalDriftCompensation_new :: 'd
  WeightClipParameter_new :: 'c
  WeightModifierParameter_new :: 'm

text \<open>
  \<^verbatim>\<open>IOParameters(is_perfect=True)\<close> and
  \<^verbatim>\<open>UpdateParameters(pulse_type=PulseType.NONE)\<close>: the defaults of the class with
  the one keyword overridden. These are the two lambdas of lines 151 and 157.
\<close>

definition perfect_io :: "('n, 'd, 'c, 'm) factories \<Rightarrow> IOParameters" where
  "perfect_io F = (IOParameters_new F)\<lparr>is_perfect := True\<rparr>"

definition no_pulse_update :: "('n, 'd, 'c, 'm) factories \<Rightarrow> UpdateParameters" where
  "no_pulse_update F = (UpdateParameters_new F)\<lparr>pulse_type := NONE\<rparr>"

text \<open>
  Modelled from the spec: the default device profiles are declared in
  \<^verbatim>\<open>aihwkit.simulator.configs.devices\<close>, which is not among the sources. The
  specification says that every default device profile disables both diffusion and decay,
  and speaks of a disabled coefficient as zero.
\<close>

definition disabled :: "DeviceParameters \<Rightarrow> bool" where
  "disabled dev \<longleftrightarrow> diffusion dev = Finite 0 \<and> lifetime dev = Finite 0"

definition default_profiles_disabled :: "('n, 'd, 'c, 'm) factories \<Rightarrow> bool" where
  "default_profiles_disabled F \<longleftrightarrow>
     disabled (FloatingPointDevice_new F) \<and>
     disabled (ConstantStepDevice_new F) \<and>
     list_all disabled (unit_cell_devices (UnitCellDevice_new F)) \<and>
     disabled (IdealDevice_new F)"

subsection \<open>The four configuration classes\<close>

text \<open>
  The instance fields of each dataclass, in declaration order. The class variable
  \<^verbatim>\<open>bindings_class\<close> is annotated \<^verbatim>\<open>ClassVar\<close>, so it is not a field of the
  instances; it is modelled on the classes below.
\<close>

record FloatingPointRPUConfig =
  device :: FloatingPointDevice

record SingleRPUConfig =
  device :: PulsedDevice
  forward :: IOParameters
  backward :: IOParameters
  update :: UpdateParameters

record UnitCellRPUConfig =
  device :: UnitCellDevice
  forward :: IOParameters
  backward :: IOParameters
  update :: UpdateParameters

record ('n, 'd, 'c, 'm) InferenceRPUConfig =
  forward :: IOParameters
  noise_model :: 'n
  drift_compensation :: 'd
  clip :: 'c
  modifier :: 'm
  device :: IdealDevice
  backward :: IOParameters
  update :: UpdateParameters

subsection \<open>Capability queries\<close>

definition FloatingPointRPUConfig_requires_diffusion :: "FloatingPointRPUConfig \<Rightarrow> bool" where
  "FloatingPointRPUConfig_requires_diffusion self =
     float_gt (diffusion (FloatingPointRPUConfig.device self)) (Finite 0.0)"

definition FloatingPointRPUConfig_requires_decay :: "FloatingPointRPUConfig \<Rightarrow> bool" where
  "FloatingPointRPUConfig_requires_decay self =
     float_gt (lifetime (FloatingPointRPUConfig.device self)) (Finite 0.0)"

definition SingleRPUConfig_requires_diffusion :: "SingleRPUConfig \<Rightarrow> bool" where
  "SingleRPUConfig_requires_diffusion self =
     float_gt (diffusion (SingleRPUConfig.device self)) (Finite 0.0)"

definition SingleRPUConfig_requires_decay :: "SingleRPUConfig \<Rightarrow> bool" where
  "SingleRPUConfig_requires_decay self =
     float_gt (lifetime (SingleRPUConfig.device self)) (Finite 0.0)"

definition UnitCellRPUConfig_requires_diffusion :: "UnitCellRPUConfig \<Rightarrow> bool" where
  "UnitCellRPUConfig_requires_diffusion self =
     any_py (map (\<lambda>dev. float_gt (diffusion dev) (Finite 0.0))
                 (unit_cell_devices (UnitCellRPUConfig.device self)))"

definition UnitCellRPUConfig_requires_decay :: "UnitCellRPUConfig \<Rightarrow> bool" where
  "UnitCellRPUConfig_requires_decay self =
     any_py (map (\<lambda>dev. float_gt (lifetime dev) (Finite 0.0))
                 (unit_cell_devices (UnitCellRPUConfig.device self)))"

definition InferenceRPUConfig_requires_diffusion :: "('n, 'd, 'c, 'm) InferenceRPUConfig \<Rightarrow> bool" where
  "InferenceRPUConfig_requires_diffusion self =
     float_gt (diffusion (InferenceRPUConfig.device self)) (Finite 0.0)"

definition InferenceRPUConfig_requires_decay :: "('n, 'd, 'c, 'm) InferenceRPUConfig \<Rightarrow> bool" where
  "InferenceRPUConfig_requires_decay self =
     float_gt (lifetime (InferenceRPUConfig.device self)) (Finite 0.0)"

subsection \<open>Construction\<close>

text \<open>
  The \<^verbatim>\<open>__init__\<close> that \<^verbatim>\<open>@dataclass\<close> generates takes one optional argument
  per field declared with \<^verbatim>\<open>init=True\<close> (the default); an omitted argument is
  replaced by the result of the field's default factory. \<open>None\<close> is an omitted
  argument. Positional arguments bind to these same parameters in declaration order, so
  they are covered by the keyword form. For the first three classes every field is a
  parameter and the generated body only assigns, so these constructors do not raise.
\<close>

definition arg_or :: "'a option \<Rightarrow> 'a \<Rightarrow> 'a" where
  "arg_or arg dflt = (case arg of None \<Rightarrow> dflt | Some v \<Rightarrow> v)"

definition FloatingPointRPUConfig_init ::
  "('n, 'd, 'c, 'm) factories \<Rightarrow> FloatingPointDevice option \<Rightarrow> FloatingPointRPUConfig" where
  "FloatingPointRPUConfig_init F dev =
     \<lparr>FloatingPointRPUConfig.device = arg_or dev (FloatingPointDevice_new F)\<rparr>"

definition SingleRPUConfig_init ::
  "('n, 'd, 'c, 'm) factories \<Rightarrow> PulsedDevice option \<Rightarrow> IOParameters option \<Rightarrow>
   IOParameters option \<Rightarrow> UpdateParameters option \<Rightarrow> SingleRPUConfig" where
  "SingleRPUConfig_init F dev fwd bwd upd =
     \<lparr>SingleRPUConfig.device = arg_or dev (ConstantStepDevice_new F),
      SingleRPUConfig.forward = arg_or fwd (IOParameters_new F),
      SingleRPUConfig.backward = arg_or bwd (IOParameters_new F),
      SingleRPUConfig.update = arg_or upd (UpdateParameters_new F)\<rparr>"

definition UnitCellRPUConfig_init ::
  "('n, 'd, 'c, 'm) factories \<Rightarrow> UnitCellDevice option \<Rightarrow> IOParameters option \<Rightarrow>
   IOParameters option \<Rightarrow> UpdateParameters option \<Rightarrow> UnitCellRPUConfig" where
  "UnitCellRPUConfig_init F dev fwd bwd upd =
     \<lparr>UnitCellRPUConfig.device = arg_or dev (UnitCellDevice_new F),
      UnitCellRPUConfig.forward = arg_or fwd (IOParameters_new F),
      UnitCellRPUConfig.backward = arg_or bwd (IOParameters_new F),
      UnitCellRPUConfig.update = arg_or upd (UpdateParameters_new F)\<rparr>"

text \<open>
  The keyword arguments of a call \<^verbatim>\<open>InferenceRPUConfig(...)\<close>, one optional entry
  per field name of the class. The fields \<^verbatim>\<open>device\<close>, \<^verbatim>\<open>backward\<close> and
  \<^verbatim>\<open>update\<close> are declared with \<^verbatim>\<open>init=False\<close>: they are not parameters of the
  generated \<^verbatim>\<open>__init__\<close>, so a call that names one of them raises
  \<^verbatim>\<open>TypeError\<close> (unexpected keyword argument), and the generated body sets them from
  their default factories.
\<close>

record ('n, 'd, 'c, 'm) InferenceRPUConfig_kwargs =
  kw_forward :: "IOParameters option"
  kw_noise_model :: "'n option"
  kw_drift_compensation :: "'d option"
  kw_clip :: "'c option"
  kw_modifier :: "'m option"
  kw_device :: "IdealDevice option"
  kw_backward :: "IOParameters option"
  kw_update :: "UpdateParameters option"

definition no_kwargs :: "('n, 'd, 'c, 'm) InferenceRPUConfig_kwargs" where
  "no_kwargs = \<lparr>kw_forward = None, kw_noise_model = None, kw_drift_compensation = None,
     kw_clip = None, kw_modifier = None, kw_device = None, kw_backward = None,
     kw_update = None\<rparr>"

definition passes_fixed_field :: "('n, 'd, 'c, 'm) InferenceRPUConfig_kwargs \<Rightarrow> bool" where
  "passes_fixed_field kw \<longleftrightarrow> kw_device kw \<noteq> None \<or> kw_backward kw \<noteq> None \<or> kw_update kw \<noteq> None"

definition InferenceRPUConfig_init ::
  "('n, 'd, 'c, 'm) factories \<Rightarrow> ('n, 'd, 'c, 'm) InferenceRPUConfig_kwargs \<Rightarrow>
   error + ('n, 'd, 'c, 'm) InferenceRPUConfig" where
  "InferenceRPUConfig_init F kw =
     (if passes_fixed_field kw then Inl TypeError
      else Inr \<lparr>InferenceRPUConfig.forward = arg_or (kw_forward kw) (IOParameters_new F),
                noise_model = arg_or (kw_noise_model kw) (PCMLikeNoiseModel_new F),
                drift_compensation = arg_or (kw_drift_compensation kw) (GlobalDriftCompensation_new F),
                clip = arg_or (kw_clip kw) (WeightClipParameter_new F),
                modifier = arg_or (kw_modifier kw) (WeightModifierParameter_new F),
                InferenceRPUConfig.device = IdealDevice_new F,
                InferenceRPUConfig.backward = perfect_io F,
                InferenceRPUConfig.update = no_pulse_update F\<rparr>)"

subsection \<open>Attribute assignment\<close>

text \<open>
  None of the four dataclasses is declared \<^verbatim>\<open>frozen\<close>, so no \<^verbatim>\<open>__setattr__\<close> is
  generated and an assignment \<^verbatim>\<open>cfg.field = value\<close> rebinds the attribute. For the
  single-device class the two nested assignments \<^verbatim>\<open>cfg.device.diffusion = v\<close> and
  \<^verbatim>\<open>cfg.device.lifetime = v\<close> are included.
\<close>

datatype SingleRPUConfig_assignment =
    Single_set_device PulsedDevice
  | Single_set_device_diffusion pyfloat
  | Single_set_device_lifetime pyfloat
  | Single_set_forward IOParameters
  | Single_set_backward IOParameters
  | Single_set_update UpdateParameters

fun SingleRPUConfig_assign :: "SingleRPUConfig \<Rightarrow> SingleRPUConfig_assignment \<Rightarrow> SingleRPUConfig" where
  "SingleRPUConfig_assign self (Single_set_device d) = self\<lparr>SingleRPUConfig.device := d\<rparr>"
| "SingleRPUConfig_assign self (Single_set_device_diffusion v) =
     self\<lparr>SingleRPUConfig.device := (SingleRPUConfig.device self)\<lparr>diffusion := v\<rparr>\<rparr>"
| "SingleRPUConfig_assign self (Single_set_device_lifetime v) =
     self\<lparr>SingleRPUConfig.device := (SingleRPUConfig.device self)\<lparr>lifetime := v\<rparr>\<rparr>"
| "SingleRPUConfig_assign self (Single_set_forward io) = self\<lparr>SingleRPUConfig.forward := io\<rparr>"
| "SingleRPUConfig_assign self (Single_set_backward io) = self\<lparr>SingleRPUConfig.backward := io\<rparr>"
| "SingleRPUConfig_assign self (Single_set_update u) = self\<lparr>SingleRPUConfig.update := u\<rparr>"

datatype ('n, 'd, 'c, 'm) InferenceRPUConfig_assignment =
    Inference_set_forward IOParameters
  | Inference_set_noise_model 'n
  | Inference_set_drift_compensation 'd
  | Inference_set_clip 'c
  | Inference_set_modifier 'm
  | Inference_set_device IdealDevice
  | Inference_set_backward IOParameters
  | Inference_set_update UpdateParameters

fun InferenceRPUConfig_assign ::
  "('n, 'd, 'c, 'm) InferenceRPUConfig \<Rightarrow> ('n, 'd, 'c, 'm) InferenceRPUConfig_assignment \<Rightarrow>
   ('n, 'd, 'c, 'm) InferenceRPUConfig" where
  "InferenceRPUConfig_assign self (Inference_set_forward io) = self\<lparr>InferenceRPUConfig.forward := io\<rparr>"
| "InferenceRPUConfig_assign self (Inference_set_noise_model n) = self\<lparr>noise_model := n\<rparr>"
| "InferenceRPUConfig_assign self (Inference_set_drift_compensation d) = self\<lparr>drift_compensation := d\<rparr>"
| "InferenceRPUConfig_assign self (Inference_set_clip c) = self\<lparr>clip := c\<rparr>"
| "InferenceRPUConfig_assign self (Inference_set_modifier m) = self\<lparr>modifier := m\<rparr>"
| "InferenceRPUConfig_assign self (Inference_set_device dev) = self\<lparr>InferenceRPUConfig.device := dev\<rparr>"
| "InferenceRPUConfig_assign self (Inference_set_backward io) = self\<lparr>InferenceRPUConfig.backward := io\<rparr>"
| "InferenceRPUConfig_assign self (Inference_set_update u) = self\<lparr>InferenceRPUConfig.update := u\<rparr>"

text \<open>Whether an assignment rebinds \<^verbatim>\<open>backward\<close> or \<^verbatim>\<open>update\<close>.\<close>

fun rebinds_backward_or_update :: "('n, 'd, 'c, 'm) InferenceRPUConfig_assignment \<Rightarrow> bool" where
  "rebinds_backward_or_update (Inference_set_backward io) = True"
| "rebinds_backward_or_update (Inference_set_update u) = True"
| "rebinds_backward_or_update a = False"

subsection \<open>The class-level bindings marker\<close>

text \<open>
  \<^verbatim>\<open>bindings_class: ClassVar[Type] = devices.AnalogTileParameter\<close> is an attribute of
  the class object. A Python class is identified here by its qualified name. The
  floating-point class declares no such attribute, so a lookup on it raises
  \<^verbatim>\<open>AttributeError\<close>: the result \<open>None\<close>. A lookup on an instance finds no instance
  attribute of that name (it is not a field) and falls through to the class.
\<close>

datatype config_class =
    FloatingPointRPUConfig_class
  | SingleRPUConfig_class
  | UnitCellRPUConfig_class
  | InferenceRPUConfig_class

definition AnalogTileParameter :: string where
  "AnalogTileParameter = ''aihwkit.simulator.rpu_base.devices.AnalogTileParameter''"

fun bindings_class :: "config_class \<Rightarrow> string option" where
  "bindings_class FloatingPointRPUConfig_class = None"
| "bindings_class SingleRPUConfig_class = Some AnalogTileParameter"
| "bindings_class UnitCellRPUConfig_class = Some AnalogTileParameter"
| "bindings_class InferenceRPUConfig_class = Some AnalogTileParameter"

datatype ('n, 'd, 'c, 'm) rpu_config =
    FloatingPointInstance FloatingPointRPUConfig
  | SingleInstance SingleRPUConfig
  | UnitCellInstance UnitCellRPUConfig
  | InferenceInstance "('n, 'd, 'c, 'm) InferenceRPUConfig"

fun class_of_instance :: "('n, 'd, 'c, 'm) rpu_config \<Rightarrow> config_class" where
  "class_of_instance (FloatingPointInstance c) = FloatingPointRPUConfig_class"
| "class_of_instance (SingleInstance c) = SingleRPUConfig_class"
| "class_of_instance (UnitCellInstance c) = UnitCellRPUConfig_class"
| "class_of_instance (InferenceInstance c) = InferenceRPUConfig_class"

definition instance_bindings_class :: "('n, 'd, 'c, 'm) rpu_config \<Rightarrow> string option" where
  "instance_bindings_class inst = bindings_class (class_of_instance inst)"

subsection \<open>Translation to the native parameters\<close>

text \<open>
  Modelled from the spec: \<^verbatim>\<open>tile_parameters_to_bindings\<close> is declared in
  \<^verbatim>\<open>aihwkit.simulator.configs.utils\<close> and the native class
  \<^verbatim>\<open>AnalogTileParameter\<close> in \<^verbatim>\<open>aihwkit.simulator.rpu_base\<close>; neither is among
  the sources. The specification says: the translator is a pure function of the current
  field values; it produces a native object containing the device parameters (flattened,
  the order of a unit cell preserved), the forward I/O parameters, the backward I/O
  parameters and the update parameters; it fails when a nested field fails its own
  validation or the combination cannot be represented natively; and it must reject a
  unit cell with zero sub-devices. The validation itself belongs to the nested models and
  the native engine, so it is the parameter \<open>representable\<close>.
\<close>

record AnalogTileParameter_object =
  native_devices :: "DeviceParameters list"
  native_forward :: IOParameters
  native_backward :: IOParameters
  native_update :: UpdateParameters

datatype ('n, 'd, 'c, 'm) tile_parameters =
    OfSingle SingleRPUConfig
  | OfUnitCell UnitCellRPUConfig
  | OfInference "('n, 'd, 'c, 'm) InferenceRPUConfig"

definition tile_parameters_to_bindings ::
  "(('n, 'd, 'c, 'm) tile_parameters \<Rightarrow> bool) \<Rightarrow> ('n, 'd, 'c, 'm) tile_parameters \<Rightarrow>
   error + AnalogTileParameter_object" where
  "tile_parameters_to_bindings representable params =
     (case params of
        OfSingle c \<Rightarrow>
          if \<not> representable params then Inl TranslationError
          else Inr \<lparr>native_devices = [SingleRPUConfig.device c],
                    native_forward = SingleRPUConfig.forward c,
                    native_backward = SingleRPUConfig.backward c,
                    native_update = SingleRPUConfig.update c\<rparr>
      | OfUnitCell c \<Rightarrow>
          if unit_cell_devices (UnitCellRPUConfig.device c) = [] then Inl EmptyUnitCell
          else if \<not> representable params then Inl TranslationError
          else Inr \<lparr>native_devices = unit_cell_devices (UnitCellRPUConfig.device c),
                    native_forward = UnitCellRPUConfig.forward c,
                    native_backward = UnitCellRPUConfig.backward c,
                    native_update = UnitCellRPUConfig.update c\<rparr>
      | OfInference c \<Rightarrow>
          if \<not> representable params then Inl TranslationError
          else Inr \<lparr>native_devices = [InferenceRPUConfig.device c],
                    native_forward = InferenceRPUConfig.forward c,
                    native_backward = InferenceRPUConfig.backward c,
                    native_update = InferenceRPUConfig.update c\<rparr>)"

text \<open>The three \<^verbatim>\<open>as_bindings\<close> methods pass \<^verbatim>\<open>self\<close> to the translator.\<close>

definition SingleRPUConfig_as_bindings ::
  "(('n, 'd, 'c, 'm) tile_parameters \<Rightarrow> bool) \<Rightarrow> SingleRPUConfig \<Rightarrow> error + AnalogTileParameter_object" where
  "SingleRPUConfig_as_bindings representable self =
     tile_parameters_to_bindings representable (OfSingle self)"

definition UnitCellRPUConfig_as_bindings ::
  "(('n, 'd, 'c, 'm) tile_parameters \<Rightarrow> bool) \<Rightarrow> UnitCellRPUConfig \<Rightarrow> error + AnalogTileParameter_object" where
  "UnitCellRPUConfig_as_bindings representable self =
     tile_parameters_to_bindings representable (OfUnitCell self)"

definition InferenceRPUConfig_as_bindings ::
  "(('n, 'd, 'c, 'm) tile_parameters \<Rightarrow> bool) \<Rightarrow> ('n, 'd, 'c, 'm) InferenceRPUConfig \<Rightarrow>
   error + AnalogTileParameter_object" where
  "InferenceRPUConfig_as_bindings representable self =
     tile_parameters_to_bindings representable (OfInference self)"

text \<open>
  The three definitions above give what \<^verbatim>\<open>as_bindings\<close> returns when the translator is
  the function modelled above. A Python call can also read and change program state, so
  the call \<^verbatim>\<open>cfg.as_bindings()\<close> is given a second, state-passing form. The state of
  the program is the instance \<^verbatim>\<open>cfg\<close> together with everything else the callee can
  reach (module globals, random generators, the native library), of type \<open>'w\<close>. What a
  call of the translator on a single-device instance does to them is the parameter
  \<open>translate\<close>: it returns the result, the instance as the call left it and the rest of
  the state as the call left it. The method body of lines 69 to 71 is the single statement
  \<^verbatim>\<open>return tile_parameters_to_bindings(self)\<close>: it passes the instance, returns what
  the translator returns and has no effect of its own.
\<close>

type_synonym 'w translator_call =
  "'w \<Rightarrow> SingleRPUConfig \<Rightarrow> (error + AnalogTileParameter_object) \<times> SingleRPUConfig \<times> 'w"

definition SingleRPUConfig_as_bindings_call ::
  "'w translator_call \<Rightarrow> 'w \<Rightarrow> SingleRPUConfig \<Rightarrow>
   (error + AnalogTileParameter_object) \<times> SingleRPUConfig \<times> 'w" where
  "SingleRPUConfig_as_bindings_call translate w self = translate w self"


subsection \<open>Concrete values\<close>

text \<open>
  Values at which the statements below are evaluated: a set of default factories whose
  devices have zero diffusion and lifetime and whose unit cell holds two such devices, and
  a device with a positive diffusion coefficient.
\<close>

definition zero_device :: DeviceParameters where
  "zero_device = \<lparr>diffusion = Finite 0, lifetime = Finite 0\<rparr>"

definition diffusing_device :: DeviceParameters where
  "diffusing_device = \<lparr>diffusion = Finite (1 / 2), lifetime = Finite 0\<rparr>"

definition decaying_device :: DeviceParameters where
  "decaying_device = \<lparr>diffusion = Finite 0, lifetime = Finite 100\<rparr>"

definition example_factories :: "(unit, unit, unit, unit) factories" where
  "example_factories =
     \<lparr>FloatingPointDevice_new = zero_device,
      ConstantStepDevice_new = zero_device,
      UnitCellDevice_new = \<lparr>unit_cell_devices = [zero_device, zero_device]\<rparr>,
      IdealDevice_new = zero_device,
      IOParameters_new = \<lparr>is_perfect = False\<rparr>,
      UpdateParameters_new = \<lparr>pulse_type = Pulsed 0\<rparr>,
      PCMLikeNoiseModel_new = (),
      GlobalDriftCompensation_new = (),
      WeightClipParameter_new = (),
      WeightModifierParameter_new = ()\<rparr>"

definition example_single_config :: SingleRPUConfig where
  "example_single_config =
     \<lparr>SingleRPUConfig.device = zero_device,
      SingleRPUConfig.forward = \<lparr>is_perfect = False\<rparr>,
      SingleRPUConfig.backward = \<lparr>is_perfect = False\<rparr>,
      SingleRPUConfig.update = \<lparr>pulse_type = Pulsed 0\<rparr>\<rparr>"

definition example_unit_cell_config :: UnitCellRPUConfig where
  "example_unit_cell_config =
     \<lparr>UnitCellRPUConfig.device = \<lparr>unit_cell_devices = [zero_device, decaying_device, zero_device]\<rparr>,
      UnitCellRPUConfig.forward = \<lparr>is_perfect = False\<rparr>,
      UnitCellRPUConfig.backward = \<lparr>is_perfect = False\<rparr>,
      UnitCellRPUConfig.update = \<lparr>pulse_type = Pulsed 0\<rparr>\<rparr>"

definition empty_unit_cell_config :: UnitCellRPUConfig where
  "empty_unit_cell_config =
     \<lparr>UnitCellRPUConfig.device = \<lparr>unit_cell_devices = []\<rparr>,
      UnitCellRPUConfig.forward = \<lparr>is_perfect = False\<rparr>,
      UnitCellRPUConfig.backward = \<lparr>is_perfect = False\<rparr>,
      UnitCellRPUConfig.update = \<lparr>pulse_type = Pulsed 0\<rparr>\<rparr>"

definition example_inference_config :: "(unit, unit, unit, unit) InferenceRPUConfig" where
  "example_inference_config =
     \<lparr>InferenceRPUConfig.forward = \<lparr>is_perfect = False\<rparr>,
      noise_model = (), drift_compensation = (), clip = (), modifier = (),
      InferenceRPUConfig.device = zero_device,
      InferenceRPUConfig.backward = \<lparr>is_perfect = True\<rparr>,
      InferenceRPUConfig.update = \<lparr>pulse_type = NONE\<rparr>\<rparr>"

definition always_representable :: "(unit, unit, unit, unit) tile_parameters \<Rightarrow> bool" where
  "always_representable params = True"


definition counting_translator :: "nat translator_call" where
  "counting_translator w self =
     (if w = 0 then SingleRPUConfig_as_bindings always_representable self else Inl TranslationError,
      self, Suc w)"

definition example_native :: AnalogTileParameter_object where
  "example_native =
     \<lparr>native_devices = [zero_device],
      native_forward = \<lparr>is_perfect = False\<rparr>,
      native_backward = \<lparr>is_perfect = False\<rparr>,
      native_update = \<lparr>pulse_type = Pulsed 0\<rparr>\<rparr>"

subsection \<open>Helper facts\<close>

lemma float_gt_zero: "float_gt v (Finite 0) = strictly_positive v"
  by (cases v) (simp_all add: strictly_positive_def)

lemma any_py_iff: "any_py bs \<longleftrightarrow> (\<exists>b \<in> set bs. b)"
  by (induction bs) auto

lemma arg_or_simps: "arg_or None d = d" "arg_or (Some v) d = v"
  by (simp_all add: arg_or_def)

lemma disabled_not_required:
  "disabled dev \<Longrightarrow> \<not> float_gt (diffusion dev) (Finite 0) \<and> \<not> float_gt (lifetime dev) (Finite 0)"
  by (simp add: disabled_def)

lemma assign_keeps_backward_update:
  "\<not> rebinds_backward_or_update a \<Longrightarrow>
     InferenceRPUConfig.backward (InferenceRPUConfig_assign c a) = InferenceRPUConfig.backward c
   \<and> InferenceRPUConfig.update (InferenceRPUConfig_assign c a) = InferenceRPUConfig.update c"
  by (cases a) simp_all

lemma foldl_assign_keeps_backward_update:
  "list_all (\<lambda>a. \<not> rebinds_backward_or_update a) as \<Longrightarrow>
     InferenceRPUConfig.backward (foldl InferenceRPUConfig_assign c as) = InferenceRPUConfig.backward c
   \<and> InferenceRPUConfig.update (foldl InferenceRPUConfig_assign c as) = InferenceRPUConfig.update c"
  by (induction as arbitrary: c) (simp_all add: assign_keeps_backward_update)

lemma example_factories_disabled: "default_profiles_disabled example_factories"
  by (simp add: default_profiles_disabled_def example_factories_def disabled_def zero_device_def)

lemma example_inference_config_constructed:
  "InferenceRPUConfig_init example_factories no_kwargs = Inr example_inference_config"
  by (simp add: InferenceRPUConfig_init_def no_kwargs_def passes_fixed_field_def
      example_factories_def example_inference_config_def perfect_io_def no_pulse_update_def
      arg_or_simps)



lemma example_single_config_translated:
  "SingleRPUConfig_as_bindings always_representable example_single_config = Inr example_native"
  by (simp add: SingleRPUConfig_as_bindings_def tile_parameters_to_bindings_def
      always_representable_def example_single_config_def example_native_def)

text \<open>
  The state-passing form can tell a translator with effects from one without: with the
  counting translator, two calls in a row on one unchanged instance return different
  results.
\<close>

lemma counting_translator_not_repeatable:
  "SingleRPUConfig_as_bindings_call counting_translator 0 example_single_config
     = (Inr example_native, example_single_config, 1)
   \<and> SingleRPUConfig_as_bindings_call counting_translator 1 example_single_config
     = (Inl TranslationError, example_single_config, 2)"
  by (simp add: SingleRPUConfig_as_bindings_call_def counting_translator_def
      example_single_config_translated)

subsection \<open>Floating-point configuration\<close>

text \<open>
  Claim C4. For every floating-point configuration, \<^verbatim>\<open>requires_diffusion()\<close> returns
  true exactly when the diffusion coefficient of its device is strictly greater than zero,
  and \<^verbatim>\<open>requires_decay()\<close> returns true exactly when the lifetime of its device is
  strictly greater than zero.
\<close>

theorem floating_point_requires_iff_positive:
  "FloatingPointRPUConfig_requires_diffusion cfg
     = strictly_positive (diffusion (FloatingPointRPUConfig.device cfg))
   \<and> FloatingPointRPUConfig_requires_decay cfg
     = strictly_positive (lifetime (FloatingPointRPUConfig.device cfg))"
  by (simp add: FloatingPointRPUConfig_requires_diffusion_def
      FloatingPointRPUConfig_requires_decay_def float_gt_zero)

subsection \<open>Single-device configuration\<close>

text \<open>
  Claim C5. For every single-device configuration the capability queries read the device
  field at the time of the call: after the device's diffusion coefficient is set to a
  positive value \<^verbatim>\<open>requires_diffusion()\<close> returns true, after it is set back to zero
  the query returns false again, and after any sequence of assignments to the
  configuration both queries agree with the device field values of the resulting state.
\<close>

theorem single_requires_follow_device_fields:
  "(strictly_positive v \<longrightarrow>
      SingleRPUConfig_requires_diffusion (SingleRPUConfig_assign cfg (Single_set_device_diffusion v)))
   \<and> \<not> SingleRPUConfig_requires_diffusion
        (SingleRPUConfig_assign (SingleRPUConfig_assign cfg (Single_set_device_diffusion v))
           (Single_set_device_diffusion (Finite 0.0)))
   \<and> SingleRPUConfig_requires_diffusion (foldl SingleRPUConfig_assign cfg as)
       = strictly_positive (diffusion (SingleRPUConfig.device (foldl SingleRPUConfig_assign cfg as)))
   \<and> SingleRPUConfig_requires_decay (foldl SingleRPUConfig_assign cfg as)
       = strictly_positive (lifetime (SingleRPUConfig.device (foldl SingleRPUConfig_assign cfg as)))"
  by (simp add: SingleRPUConfig_requires_diffusion_def SingleRPUConfig_requires_decay_def
      float_gt_zero strictly_positive_def)

theorem single_requires_follow_device_fields_witness:
  "strictly_positive (Finite (1 / 2))
   \<and> SingleRPUConfig_requires_diffusion
        (SingleRPUConfig_assign example_single_config (Single_set_device_diffusion (Finite (1 / 2))))
   \<and> \<not> SingleRPUConfig_requires_diffusion
        (SingleRPUConfig_assign
           (SingleRPUConfig_assign example_single_config (Single_set_device_diffusion (Finite (1 / 2))))
           (Single_set_device_diffusion (Finite 0.0)))
   \<and> SingleRPUConfig_requires_diffusion
        (foldl SingleRPUConfig_assign example_single_config
           [Single_set_device_diffusion (Finite (1 / 2)), Single_set_device decaying_device])
       = False
   \<and> SingleRPUConfig_requires_decay
        (foldl SingleRPUConfig_assign example_single_config
           [Single_set_device_diffusion (Finite (1 / 2)), Single_set_device decaying_device])
       = True"
  using single_requires_follow_device_fields [of "Finite (1 / 2)" example_single_config
      "[Single_set_device_diffusion (Finite (1 / 2)), Single_set_device decaying_device]"]
  by (simp add: strictly_positive_def decaying_device_def)



subsection \<open>Unit-cell configuration\<close>

text \<open>
  Claim C3. For every unit-cell configuration, \<^verbatim>\<open>requires_decay()\<close> returns true
  exactly when at least one sub-device of the unit cell has a strictly positive lifetime,
  and \<^verbatim>\<open>requires_diffusion()\<close> returns true exactly when at least one sub-device has
  a strictly positive diffusion coefficient.
\<close>

theorem unit_cell_requires_is_disjunction:
  "UnitCellRPUConfig_requires_decay cfg
     = (\<exists>dev \<in> set (unit_cell_devices (UnitCellRPUConfig.device cfg)). strictly_positive (lifetime dev))
   \<and> UnitCellRPUConfig_requires_diffusion cfg
     = (\<exists>dev \<in> set (unit_cell_devices (UnitCellRPUConfig.device cfg)). strictly_positive (diffusion dev))"
  by (simp add: UnitCellRPUConfig_requires_decay_def UnitCellRPUConfig_requires_diffusion_def
      any_py_iff float_gt_zero)

theorem unit_cell_requires_is_disjunction_witness:
  "UnitCellRPUConfig_requires_decay example_unit_cell_config = True
   \<and> UnitCellRPUConfig_requires_diffusion example_unit_cell_config = False"
  using unit_cell_requires_is_disjunction [of example_unit_cell_config]
  by (simp add: example_unit_cell_config_def zero_device_def decaying_device_def
      strictly_positive_def)

text \<open>
  Claim C10. For a unit-cell configuration whose unit cell holds no sub-device,
  \<^verbatim>\<open>requires_diffusion()\<close> and \<^verbatim>\<open>requires_decay()\<close> both return false.
\<close>

theorem empty_unit_cell_requires_nothing:
  assumes "unit_cell_devices (UnitCellRPUConfig.device cfg) = []"
  shows "UnitCellRPUConfig_requires_diffusion cfg = False
       \<and> UnitCellRPUConfig_requires_decay cfg = False"
  using assms
  by (simp add: UnitCellRPUConfig_requires_decay_def UnitCellRPUConfig_requires_diffusion_def)

theorem empty_unit_cell_requires_nothing_witness:
  "unit_cell_devices (UnitCellRPUConfig.device empty_unit_cell_config) = []
   \<and> UnitCellRPUConfig_requires_diffusion empty_unit_cell_config = False
   \<and> UnitCellRPUConfig_requires_decay empty_unit_cell_config = False"
  using empty_unit_cell_requires_nothing [of empty_unit_cell_config]
  by (simp add: empty_unit_cell_config_def)

text \<open>
  Claim C6. For every unit-cell configuration whose device field holds zero sub-devices,
  \<^verbatim>\<open>as_bindings()\<close> fails with an error and returns no native object.
\<close>

theorem unit_cell_as_bindings_rejects_empty:
  assumes "unit_cell_devices (UnitCellRPUConfig.device cfg) = []"
  shows "UnitCellRPUConfig_as_bindings representable cfg = Inl EmptyUnitCell"
  using assms by (simp add: UnitCellRPUConfig_as_bindings_def tile_parameters_to_bindings_def)

theorem unit_cell_as_bindings_rejects_empty_witness:
  "unit_cell_devices (UnitCellRPUConfig.device empty_unit_cell_config) = []
   \<and> UnitCellRPUConfig_as_bindings always_representable empty_unit_cell_config = Inl EmptyUnitCell"
  using unit_cell_as_bindings_rejects_empty [of empty_unit_cell_config always_representable]
  by (simp add: empty_unit_cell_config_def)

subsection \<open>Inference-only configuration\<close>

text \<open>
  Claim C2. Every construction of an inference-only configuration that passes a
  \<^verbatim>\<open>device\<close>, \<^verbatim>\<open>backward\<close> or \<^verbatim>\<open>update\<close> argument fails with a
  \<^verbatim>\<open>TypeError\<close>, and every configuration that the constructor returns has
  \<^verbatim>\<open>backward\<close> equal to \<^verbatim>\<open>IOParameters(is_perfect=True)\<close> and \<^verbatim>\<open>update\<close>
  equal to \<^verbatim>\<open>UpdateParameters(pulse_type=PulseType.NONE)\<close>.
\<close>

theorem inference_init_rejects_fixed_fields:
  "(kw_device kw \<noteq> None \<or> kw_backward kw \<noteq> None \<or> kw_update kw \<noteq> None
      \<longrightarrow> InferenceRPUConfig_init F kw = Inl TypeError)
   \<and> (\<forall>cfg. InferenceRPUConfig_init F kw = Inr cfg
      \<longrightarrow> InferenceRPUConfig.backward cfg = perfect_io F
        \<and> InferenceRPUConfig.update cfg = no_pulse_update F)"
  by (auto simp add: InferenceRPUConfig_init_def passes_fixed_field_def)

theorem inference_init_rejects_fixed_fields_witness:
  "InferenceRPUConfig_init example_factories
       (no_kwargs\<lparr>kw_backward := Some \<lparr>is_perfect = False\<rparr>\<rparr>) = Inl TypeError
   \<and> InferenceRPUConfig_init example_factories no_kwargs = Inr example_inference_config
   \<and> InferenceRPUConfig.backward example_inference_config = perfect_io example_factories
   \<and> InferenceRPUConfig.update example_inference_config = no_pulse_update example_factories"
  using inference_init_rejects_fixed_fields
      [of "no_kwargs\<lparr>kw_backward := Some \<lparr>is_perfect = False\<rparr>\<rparr>" example_factories]
    inference_init_rejects_fixed_fields [of no_kwargs example_factories]
  by (simp add: example_inference_config_constructed)

text \<open>
  Claim C1, as the code has it. Every inference-only configuration returned by the
  constructor has \<^verbatim>\<open>backward\<close> equal to
  \<^verbatim>\<open>IOParameters(is_perfect=True)\<close> and \<^verbatim>\<open>update\<close> equal to
  \<^verbatim>\<open>UpdateParameters(pulse_type=PulseType.NONE)\<close>, whatever arguments the constructor
  accepted, and both values are kept by every sequence of attribute assignments on the
  instance that rebinds neither \<^verbatim>\<open>backward\<close> nor \<^verbatim>\<open>update\<close>. The class does
  not make the two fields read-only.
\<close>

theorem inference_sentinels_kept_by_other_assignments:
  assumes "InferenceRPUConfig_init F kw = Inr cfg"
    and "list_all (\<lambda>a. \<not> rebinds_backward_or_update a) as"
  shows "InferenceRPUConfig.backward (foldl InferenceRPUConfig_assign cfg as) = perfect_io F
       \<and> InferenceRPUConfig.update (foldl InferenceRPUConfig_assign cfg as) = no_pulse_update F"
proof -
  from assms(1) have "InferenceRPUConfig.backward cfg = perfect_io F"
    and "InferenceRPUConfig.update cfg = no_pulse_update F"
    by (auto simp add: InferenceRPUConfig_init_def split: if_splits)
  with foldl_assign_keeps_backward_update [OF assms(2), of cfg] show ?thesis by simp
qed

theorem inference_sentinels_kept_by_other_assignments_witness:
  "InferenceRPUConfig_init example_factories no_kwargs = Inr example_inference_config
   \<and> list_all (\<lambda>a. \<not> rebinds_backward_or_update a)
        [Inference_set_forward \<lparr>is_perfect = True\<rparr>, Inference_set_device diffusing_device]
   \<and> InferenceRPUConfig.backward
        (foldl InferenceRPUConfig_assign example_inference_config
           [Inference_set_forward \<lparr>is_perfect = True\<rparr>, Inference_set_device diffusing_device])
       = perfect_io example_factories
   \<and> InferenceRPUConfig.update
        (foldl InferenceRPUConfig_assign example_inference_config
           [Inference_set_forward \<lparr>is_perfect = True\<rparr>, Inference_set_device diffusing_device])
       = no_pulse_update example_factories"
  using inference_sentinels_kept_by_other_assignments
      [of example_factories no_kwargs example_inference_config
          "[Inference_set_forward \<lparr>is_perfect = True\<rparr>, Inference_set_device diffusing_device]"]
  by (simp add: example_inference_config_constructed)

text \<open>
  Claim C1 as stated fails: the class is not frozen, so the assignment
  \<^verbatim>\<open>cfg.backward = IOParameters(is_perfect=False)\<close> on a default-constructed
  configuration leaves \<^verbatim>\<open>backward\<close> different from the perfect-I/O value, and an
  assignment to \<^verbatim>\<open>update\<close> leaves it different from the no-pulse value.
\<close>

theorem inference_backward_update_can_be_reassigned:
  "InferenceRPUConfig_init example_factories no_kwargs = Inr example_inference_config
   \<and> InferenceRPUConfig.backward
        (InferenceRPUConfig_assign example_inference_config (Inference_set_backward \<lparr>is_perfect = False\<rparr>))
       \<noteq> perfect_io example_factories
   \<and> InferenceRPUConfig.update
        (InferenceRPUConfig_assign example_inference_config (Inference_set_update \<lparr>pulse_type = Pulsed 0\<rparr>))
       \<noteq> no_pulse_update example_factories"
  by (simp add: example_inference_config_constructed)
    (simp add: example_factories_def perfect_io_def no_pulse_update_def)

subsection \<open>All four classes\<close>

text \<open>
  Claim C7. The single-device, unit-cell and inference-only classes carry the same
  class-level bindings marker, the analog-tile parameter type, which every instance of
  them reads from its class; the floating-point class carries no marker.
\<close>

theorem bindings_marker_shared_by_analog_classes:
  "bindings_class SingleRPUConfig_class = Some AnalogTileParameter
   \<and> bindings_class UnitCellRPUConfig_class = Some AnalogTileParameter
   \<and> bindings_class InferenceRPUConfig_class = Some AnalogTileParameter
   \<and> bindings_class FloatingPointRPUConfig_class = None
   \<and> instance_bindings_class (SingleInstance s) = Some AnalogTileParameter
   \<and> instance_bindings_class (UnitCellInstance u) = Some AnalogTileParameter
   \<and> instance_bindings_class (InferenceInstance i) = Some AnalogTileParameter
   \<and> instance_bindings_class (FloatingPointInstance f) = None"
  by (simp add: instance_bindings_class_def)

text \<open>
  Claim C8. When every default device profile has diffusion and decay disabled,
  construction with no arguments succeeds for each of the four classes, and on the
  resulting instance \<^verbatim>\<open>requires_diffusion()\<close> and \<^verbatim>\<open>requires_decay()\<close> both
  return false.
\<close>

theorem default_construction_requires_nothing:
  assumes "default_profiles_disabled F"
  shows "\<not> FloatingPointRPUConfig_requires_diffusion (FloatingPointRPUConfig_init F None)
       \<and> \<not> FloatingPointRPUConfig_requires_decay (FloatingPointRPUConfig_init F None)
       \<and> \<not> SingleRPUConfig_requires_diffusion (SingleRPUConfig_init F None None None None)
       \<and> \<not> SingleRPUConfig_requires_decay (SingleRPUConfig_init F None None None None)
       \<and> \<not> UnitCellRPUConfig_requires_diffusion (UnitCellRPUConfig_init F None None None None)
       \<and> \<not> UnitCellRPUConfig_requires_decay (UnitCellRPUConfig_init F None None None None)
       \<and> (\<exists>cfg. InferenceRPUConfig_init F no_kwargs = Inr cfg
              \<and> \<not> InferenceRPUConfig_requires_diffusion cfg
              \<and> \<not> InferenceRPUConfig_requires_decay cfg)"
proof -
  from assms have fp: "disabled (FloatingPointDevice_new F)"
    and cs: "disabled (ConstantStepDevice_new F)"
    and uc: "list_all disabled (unit_cell_devices (UnitCellDevice_new F))"
    and ideal: "disabled (IdealDevice_new F)"
    by (simp_all add: default_profiles_disabled_def)
  have a: "\<not> FloatingPointRPUConfig_requires_diffusion (FloatingPointRPUConfig_init F None)
       \<and> \<not> FloatingPointRPUConfig_requires_decay (FloatingPointRPUConfig_init F None)"
    using disabled_not_required [OF fp]
    by (simp add: FloatingPointRPUConfig_requires_diffusion_def
        FloatingPointRPUConfig_requires_decay_def FloatingPointRPUConfig_init_def arg_or_simps)
  have b: "\<not> SingleRPUConfig_requires_diffusion (SingleRPUConfig_init F None None None None)
       \<and> \<not> SingleRPUConfig_requires_decay (SingleRPUConfig_init F None None None None)"
    using disabled_not_required [OF cs]
    by (simp add: SingleRPUConfig_requires_diffusion_def
        SingleRPUConfig_requires_decay_def SingleRPUConfig_init_def arg_or_simps)
  from uc have "\<forall>dev \<in> set (unit_cell_devices (UnitCellDevice_new F)).
      \<not> float_gt (diffusion dev) (Finite 0) \<and> \<not> float_gt (lifetime dev) (Finite 0)"
    using disabled_not_required by (simp add: list_all_iff)
  then have c: "\<not> UnitCellRPUConfig_requires_diffusion (UnitCellRPUConfig_init F None None None None)
       \<and> \<not> UnitCellRPUConfig_requires_decay (UnitCellRPUConfig_init F None None None None)"
    by (simp add: UnitCellRPUConfig_requires_diffusion_def
        UnitCellRPUConfig_requires_decay_def UnitCellRPUConfig_init_def arg_or_simps any_py_iff)
  have d: "\<exists>cfg. InferenceRPUConfig_init F no_kwargs = Inr cfg
              \<and> \<not> InferenceRPUConfig_requires_diffusion cfg
              \<and> \<not> InferenceRPUConfig_requires_decay cfg"
    using disabled_not_required [OF ideal]
    by (simp add: InferenceRPUConfig_init_def no_kwargs_def passes_fixed_field_def
        InferenceRPUConfig_requires_diffusion_def InferenceRPUConfig_requires_decay_def)
  from a b c d show ?thesis by blast
qed

theorem default_construction_requires_nothing_witness:
  "default_profiles_disabled example_factories
   \<and> \<not> FloatingPointRPUConfig_requires_diffusion (FloatingPointRPUConfig_init example_factories None)
   \<and> \<not> FloatingPointRPUConfig_requires_decay (FloatingPointRPUConfig_init example_factories None)
   \<and> \<not> SingleRPUConfig_requires_diffusion (SingleRPUConfig_init example_factories None None None None)
   \<and> \<not> SingleRPUConfig_requires_decay (SingleRPUConfig_init example_factories None None None None)
   \<and> \<not> UnitCellRPUConfig_requires_diffusion (UnitCellRPUConfig_init example_factories None None None None)
   \<and> \<not> UnitCellRPUConfig_requires_decay (UnitCellRPUConfig_init example_factories None None None None)
   \<and> InferenceRPUConfig_init example_factories no_kwargs = Inr example_inference_config
   \<and> \<not> InferenceRPUConfig_requires_diffusion example_inference_config
   \<and> \<not> InferenceRPUConfig_requires_decay example_inference_config"
  using default_construction_requires_nothing [OF example_factories_disabled]
  by (simp add: example_factories_disabled example_inference_config_constructed)

end
